theory Spec2Isabelle
  imports Main "HOL-Library.Word"
begin

unbundle bit_operations_syntax

section \<open>The local-filesystem storage backend of linx-server\<close>

text \<open>
  A shallow embedding of \<^verbatim>\<open>backends/localfs/localfs.go\<close> and of the declarations of
  \<^verbatim>\<open>backends/storage.go\<close> it uses. The backend keeps no state of its own: every
  operation reads or changes two directories, the data directory \<^verbatim>\<open>filesPath\<close> and the
  metadata directory \<^verbatim>\<open>metaPath\<close>. The model passes the contents of the two directories
  explicitly and returns them updated.

  What the operating system and the libraries do is outside the repository. It enters
  the model in three ways:
  \<^item> the two directories are finite maps from a key to the bytes of the file of that
    name (keys are plain file names and the two directories are distinct, so
    \<^verbatim>\<open>path.Join(dir, key)\<close> names one entry of one map);
  \<^item> every system call whose error the source inspects takes an optional fault, an
    error other than "does not exist" that the operating system reports (permissions,
    a full disk, an I/O error). \<^verbatim>\<open>os.Open\<close>, on the kind of whose error \<open>Head\<close> branches,
    meets its fault whether the file is there or not; \<^verbatim>\<open>os.Stat\<close> and \<^verbatim>\<open>os.Remove\<close>,
    whose error the source only compares with \<^verbatim>\<open>nil\<close>, meet theirs on a file that is
    there. A call whose result the source discards (\<^verbatim>\<open>os.Remove\<close> on a clean-up path,
    \<^verbatim>\<open>Seek\<close>, \<^verbatim>\<open>Close\<close>) is modelled by its effect;
  \<^item> the libraries (SHA-256, MIME detection, archive listing, JSON, the HTTP file
    server) are parameters, collected in the record \<open>lib\<close>.
\<close>

subsection \<open>Values\<close>

type_synonym byte = "8 word"

text \<open>\<^verbatim>\<open>time.Duration\<close> is an \<^verbatim>\<open>int64\<close> count of nanoseconds.\<close>

type_synonym Duration = "64 word"

text \<open>
  A \<^verbatim>\<open>time.Time\<close> is modelled by the instant it denotes, in nanoseconds since the Unix
  epoch (the monotonic clock reading and the location are not modelled).
\<close>

type_synonym Time = int

definition Time_Add :: "Time \<Rightarrow> Duration \<Rightarrow> Time" where
  "Time_Add t d = t + sint d"

text \<open>\<^verbatim>\<open>t.Unix()\<close>: the whole seconds since the epoch (the nanosecond part of a
  \<^verbatim>\<open>time.Time\<close> is never negative, so the seconds are the floor).\<close>

definition Time_Unix :: "Time \<Rightarrow> int" where
  "Time_Unix t = t div 1000000000"

text \<open>\<^verbatim>\<open>time.Unix(sec, 0)\<close>.\<close>

definition time_Unix :: "int \<Rightarrow> Time" where
  "time_Unix sec = sec * 1000000000"

text \<open>
  Error values. The first four are the sentinel errors of package \<^verbatim>\<open>backends\<close>;
  \<open>ErrNotExist\<close> is the error for which \<^verbatim>\<open>os.IsNotExist\<close> holds; any other error is
  told apart by its message. A Go function that returns a value and an error is
  modelled with both results where the source uses both, the error being an
  \<open>error option\<close> (\<open>None\<close>: \<^verbatim>\<open>nil\<close>).
\<close>

datatype error =
    NotFoundErr
  | BadMetadata
  | FileEmptyError
  | FileTooLargeError
  | ErrNotExist
  | OtherError string

definition os_IsNotExist :: "error \<Rightarrow> bool" where
  "os_IsNotExist err = (err = ErrNotExist)"

text \<open>\<^verbatim>\<open>backends.Metadata\<close>, with the fields the source reads and writes.\<close>

record Metadata =
  DeleteKey :: string
  AccessKey :: string
  Sha256sum :: string
  Mimetype :: string
  Size :: int
  Expiry :: Time
  SrcIp :: string
  OriginalName :: string
  ArchiveFiles :: "string list"

text \<open>The zero value of a \<^verbatim>\<open>Metadata\<close>: what a named result holds before it is assigned.
  The zero \<^verbatim>\<open>time.Time\<close> is 1 January of year 1, 62135596800 seconds before the epoch.\<close>

definition Metadata_zero :: Metadata where
  "Metadata_zero =
     \<lparr>DeleteKey = [], AccessKey = [], Sha256sum = [], Mimetype = [], Size = 0,
      Expiry = - 62135596800 * 1000000000, SrcIp = [], OriginalName = [],
      ArchiveFiles = []\<rparr>"

text \<open>\<^verbatim>\<open>MetadataJSON\<close>, the form a metadata record has in its sidecar file.\<close>

record MetadataJSON =
  DeleteKeyJ :: string
  AccessKeyJ :: string
  Sha256sumJ :: string
  MimetypeJ :: string
  SizeJ :: int
  ExpiryJ :: int
  SrcIpJ :: string
  OriginalNameJ :: string
  ArchiveFilesJ :: "string list"

text \<open>\<^verbatim>\<open>backends.Limits\<close>: \<^verbatim>\<open>MaxDurationTime\<close> is a \<^verbatim>\<open>uint64\<close> (seconds), the two sizes are
  \<^verbatim>\<open>int64\<close> and are read signed.\<close>

record Limits =
  MaxDurationTime :: "64 word"
  MaxDurationSize :: "64 word"
  MaxSize :: "64 word"

subsection \<open>The libraries\<close>

text \<open>
  \<open>sha256_Sum bs\<close> is \<^verbatim>\<open>hasher.Sum(nil)\<close> of a hasher that was written the bytes \<open>bs\<close>;
  \<open>mimetype_Detect\<close> is \<^verbatim>\<open>mimetype.Detect(header).String()\<close>;
  \<open>ListArchiveFiles\<close> is \<^verbatim>\<open>helpers.ListArchiveFiles\<close>, given the MIME type, the size and
  the bytes of the file it reads, with both of its results;
  \<open>json_Encode\<close> gives the bytes \<^verbatim>\<open>Encoder.Encode\<close> writes and \<open>json_Decode\<close> what
  \<^verbatim>\<open>Decoder.Decode\<close> reads from a file of the given bytes (\<open>None\<close>: an error);
  \<open>http_ServeFile\<close> is the response \<^verbatim>\<open>http.ServeFile\<close> writes for a request and the file it
  finds at the path (\<open>None\<close>: no such file);
  \<open>NeverExpire\<close> is \<^verbatim>\<open>expiry.NeverExpire\<close>.
\<close>

record lib =
  sha256_Sum :: "byte list \<Rightarrow> byte list"
  mimetype_Detect :: "byte list \<Rightarrow> string"
  ListArchiveFiles :: "string \<Rightarrow> int \<Rightarrow> byte list \<Rightarrow> string list \<times> error option"
  json_Encode :: "MetadataJSON \<Rightarrow> byte list"
  json_Decode :: "byte list \<Rightarrow> MetadataJSON option"
  http_ServeFile :: "string \<Rightarrow> byte list option \<Rightarrow> byte list"
  NeverExpire :: Time

text \<open>\<^verbatim>\<open>hex.EncodeToString\<close>: two lower-case hexadecimal digits for each byte, the high
  nibble first.\<close>

definition hextable :: string where
  "hextable = ''0123456789abcdef''"

fun hex_EncodeToString :: "byte list \<Rightarrow> string" where
  "hex_EncodeToString [] = []"
| "hex_EncodeToString (v # src) =
     hextable ! unat (drop_bit 4 v) # hextable ! unat (v AND 0x0f) # hex_EncodeToString src"

subsection \<open>The file system\<close>

record fs =
  files :: "string \<rightharpoonup> byte list"
  metas :: "string \<rightharpoonup> byte list"

text \<open>A fault is the message of an error other than "does not exist".\<close>

type_synonym fault = "string option"

text \<open>\<^verbatim>\<open>os.Remove\<close>: a missing file is an error; a fault leaves the file in place.\<close>

definition os_Remove :: "fault \<Rightarrow> (string \<rightharpoonup> byte list) \<Rightarrow> string
    \<Rightarrow> (string \<rightharpoonup> byte list) \<times> error option" where
  "os_Remove flt dir name =
     (case dir name of
        None \<Rightarrow> (dir, Some ErrNotExist)
      | Some _ \<Rightarrow>
          (case flt of
             Some msg \<Rightarrow> (dir, Some (OtherError msg))
           | None \<Rightarrow> (dir(name := None), None)))"

text \<open>\<^verbatim>\<open>os.Stat\<close>, of which the source uses the error and the size.\<close>

definition os_Stat :: "fault \<Rightarrow> (string \<rightharpoonup> byte list) \<Rightarrow> string \<Rightarrow> int \<times> error option" where
  "os_Stat flt dir name =
     (case dir name of
        None \<Rightarrow> (0, Some ErrNotExist)
      | Some bs \<Rightarrow>
          (case flt of
             Some msg \<Rightarrow> (0, Some (OtherError msg))
           | None \<Rightarrow> (int (length bs), None)))"

text \<open>
  \<^verbatim>\<open>os.Open\<close>: the handle is modelled by the bytes it reads. \<open>Head\<close> branches on the kind
  of its error, so the fault is met whether the file is there or not (a directory that
  may not be searched, a name that is too long); without a fault the open fails
  exactly for a missing file, with the error for which \<^verbatim>\<open>os.IsNotExist\<close> holds.
\<close>

definition os_Open :: "fault \<Rightarrow> (string \<rightharpoonup> byte list) \<Rightarrow> string \<Rightarrow> error + byte list" where
  "os_Open flt dir name =
     (case flt of
        Some msg \<Rightarrow> Inl (OtherError msg)
      | None \<Rightarrow>
          (case dir name of
             None \<Rightarrow> Inl ErrNotExist
           | Some bs \<Rightarrow> Inr bs))"

text \<open>\<^verbatim>\<open>os.Create\<close>: creates the file, or truncates the one that is there.\<close>

definition os_Create :: "fault \<Rightarrow> (string \<rightharpoonup> byte list) \<Rightarrow> string
    \<Rightarrow> (string \<rightharpoonup> byte list) \<times> error option" where
  "os_Create flt dir name =
     (case flt of
        Some msg \<Rightarrow> (dir, Some (OtherError msg))
      | None \<Rightarrow> (dir(name \<mapsto> []), None))"

subsection \<open>Reading the upload: \<^verbatim>\<open>io.Copy(dst, io.TeeReader(r, hasher))\<close>\<close>

text \<open>
  The reader \<^verbatim>\<open>r\<close> is modelled by what its \<^verbatim>\<open>Read\<close> calls deliver: chunks of bytes, and
  then \<^verbatim>\<open>io.EOF\<close> (\<open>None\<close>) or an error.
\<close>

record reader =
  chunks :: "byte list list"
  ending :: "error option"

text \<open>
  \<^verbatim>\<open>dst.Write(p)\<close> on the file that holds \<open>f\<close>. The limit \<open>(n, e)\<close> is a write fault: the
  file takes no more than \<open>n\<close> bytes, and the write that would exceed them is cut short
  and reports \<open>e\<close>.
\<close>

definition file_Write :: "(nat \<times> error) option \<Rightarrow> byte list \<Rightarrow> byte list
    \<Rightarrow> byte list \<times> error option" where
  "file_Write lim f p =
     (case lim of
        None \<Rightarrow> (f @ p, None)
      | Some (n, e) \<Rightarrow>
          if length f + length p \<le> n then (f @ p, None)
          else (f @ take (n - length f) p, Some e))"

text \<open>
  The copy loop. Every chunk read goes to the hasher first (the tee), then to the
  file; a failed write ends the loop with its error, the end of the reader ends it
  with the reader's error (none for \<^verbatim>\<open>io.EOF\<close>). The result is the file, the bytes
  the hasher was written, and the error of the copy.
\<close>

fun io_Copy :: "(nat \<times> error) option \<Rightarrow> byte list list \<Rightarrow> error option
    \<Rightarrow> byte list \<Rightarrow> byte list \<Rightarrow> byte list \<times> byte list \<times> error option" where
  "io_Copy lim [] er dst hasher = (dst, hasher, er)"
| "io_Copy lim (p # ps) er dst hasher =
     (if p = [] then io_Copy lim ps er dst hasher
      else
        (case file_Write lim dst p of
           (dst', Some ew) \<Rightarrow> (dst', hasher @ p, Some ew)
         | (dst', None) \<Rightarrow> io_Copy lim ps er dst' (hasher @ p)))"

subsection \<open>The operations of \<^verbatim>\<open>LocalfsBackend\<close>\<close>

definition Delete :: "fault \<Rightarrow> fault \<Rightarrow> fs \<Rightarrow> string \<Rightarrow> fs \<times> error option" where
  "Delete remove_file remove_meta s key =
     (case os_Remove remove_file (files s) key of
        (_, Some err) \<Rightarrow> (s, Some err)
      | (dir, None) \<Rightarrow>
          (case os_Remove remove_meta (metas s) key of
             (mdir, err) \<Rightarrow> (s\<lparr>files := dir, metas := mdir\<rparr>, err)))"

definition Exists :: "fault \<Rightarrow> fs \<Rightarrow> string \<Rightarrow> bool \<times> error option" where
  "Exists stat_file s key =
     (case os_Stat stat_file (files s) key of (_, err) \<Rightarrow> (err = None, err))"

text \<open>Lines 66 to 73 of \<open>Head\<close>: the assignments to the named result \<^verbatim>\<open>metadata\<close>, which
  starts as the zero value.\<close>

definition metadata_of :: "MetadataJSON \<Rightarrow> Metadata" where
  "metadata_of mjson =
     Metadata_zero
       \<lparr>DeleteKey := DeleteKeyJ mjson,
        AccessKey := AccessKeyJ mjson,
        Mimetype := MimetypeJ mjson,
        ArchiveFiles := ArchiveFilesJ mjson,
        OriginalName := OriginalNameJ mjson,
        Sha256sum := Sha256sumJ mjson,
        Expiry := time_Unix (ExpiryJ mjson),
        Size := SizeJ mjson\<rparr>"

definition Head :: "lib \<Rightarrow> fault \<Rightarrow> fs \<Rightarrow> string \<Rightarrow> Metadata \<times> error option" where
  "Head lb open_meta s key =
     (case os_Open open_meta (metas s) key of
        Inl err \<Rightarrow>
          if os_IsNotExist err then (Metadata_zero, Some NotFoundErr)
          else (Metadata_zero, Some BadMetadata)
      | Inr f \<Rightarrow>
          (case json_Decode lb f of
             None \<Rightarrow> (Metadata_zero, Some BadMetadata)
           | Some mjson \<Rightarrow> (metadata_of mjson, None)))"

text \<open>The second result of \<open>Get\<close> is the stream it returns (\<open>None\<close>: no open file).\<close>

definition Get :: "lib \<Rightarrow> fault \<Rightarrow> fault \<Rightarrow> fs \<Rightarrow> string
    \<Rightarrow> Metadata \<times> byte list option \<times> error option" where
  "Get lb open_meta open_file s key =
     (case Head lb open_meta s key of
        (metadata, Some err) \<Rightarrow> (metadata, None, Some err)
      | (metadata, None) \<Rightarrow>
          (case os_Open open_file (files s) key of
             Inl err \<Rightarrow> (metadata, None, Some err)
           | Inr f \<Rightarrow> (metadata, Some f, None)))"

text \<open>The first result of \<open>ServeFile\<close> is what was written to the response
  (\<open>None\<close>: nothing).\<close>

definition ServeFile :: "lib \<Rightarrow> fault \<Rightarrow> fs \<Rightarrow> string \<Rightarrow> string
    \<Rightarrow> byte list option \<times> error option" where
  "ServeFile lb open_meta s key r =
     (case Head lb open_meta s key of
        (_, Some err) \<Rightarrow> (None, Some err)
      | (_, None) \<Rightarrow> (Some (http_ServeFile lb r (files s key)), None))"

text \<open>Lines 107 to 118 of \<open>writeMetadata\<close>: the \<^verbatim>\<open>MetadataJSON\<close> literal.\<close>

definition mjson_of :: "Metadata \<Rightarrow> MetadataJSON" where
  "mjson_of metadata =
     \<lparr>DeleteKeyJ = DeleteKey metadata,
      AccessKeyJ = AccessKey metadata,
      Sha256sumJ = Sha256sum metadata,
      MimetypeJ = Mimetype metadata,
      SizeJ = Size metadata,
      ExpiryJ = Time_Unix (Expiry metadata),
      SrcIpJ = SrcIp metadata,
      OriginalNameJ = OriginalName metadata,
      ArchiveFilesJ = ArchiveFiles metadata\<rparr>"

definition writeMetadata :: "lib \<Rightarrow> fault \<Rightarrow> fault \<Rightarrow> fs \<Rightarrow> string \<Rightarrow> Metadata
    \<Rightarrow> fs \<times> error option" where
  "writeMetadata lb create_meta encode_meta s key metadata =
     (let mjson = mjson_of metadata
      in
        case os_Create create_meta (metas s) key of
          (_, Some err) \<Rightarrow> (s, Some err)
        | (dst, None) \<Rightarrow>
            (case encode_meta of
               Some msg \<Rightarrow>
                 (s\<lparr>metas := fst (os_Remove None dst key)\<rparr>, Some (OtherError msg))
             | None \<Rightarrow> (s\<lparr>metas := dst(key \<mapsto> json_Encode lb mjson)\<rparr>, None)))"

definition PutMetadata :: "lib \<Rightarrow> fault \<Rightarrow> fault \<Rightarrow> fs \<Rightarrow> string \<Rightarrow> Metadata
    \<Rightarrow> fs \<times> error option" where
  "PutMetadata lb create_meta encode_meta s key m =
     writeMetadata lb create_meta encode_meta s key m"

text \<open>
  What one call of \<open>Put\<close> meets outside the program: the clock, and the faults of the
  five calls whose error it inspects.
\<close>

record put_io =
  now :: Time
  create_file :: fault
  write_limit :: "(nat \<times> error) option"
  read_header :: fault
  create_meta_file :: fault
  encode_meta_file :: fault

text \<open>Lines 158 to 172 of \<open>Put\<close>: the expiry of a file of \<open>bytes\<close> bytes, given
  \<^verbatim>\<open>expiry.NeverExpire\<close>, the limits and \<^verbatim>\<open>time.Now()\<close>. The
  conversion of the \<^verbatim>\<open>uint64\<close> limit to a \<^verbatim>\<open>time.Duration\<close> keeps the 64 bits, and the
  product with \<^verbatim>\<open>time.Second\<close> wraps around; the comparisons are signed.\<close>

definition fileExpiry :: "Time \<Rightarrow> Limits \<Rightarrow> Time \<Rightarrow> Duration \<Rightarrow> int \<Rightarrow> Time" where
  "fileExpiry expiry_NeverExpire lim time_Now expiryTime bytes =
     (let maxDurationTime = MaxDurationTime lim * 1000000000 in
      if expiryTime = 0 then
        (if bytes > sint (MaxDurationSize lim) \<and> sint maxDurationTime > 0
         then Time_Add time_Now maxDurationTime
         else expiry_NeverExpire)
      else
        (if bytes > sint (MaxDurationSize lim) \<and> sint expiryTime > sint maxDurationTime
         then Time_Add time_Now maxDurationTime
         else Time_Add time_Now expiryTime))"

definition Put :: "lib \<Rightarrow> Limits \<Rightarrow> put_io \<Rightarrow> fs \<Rightarrow> string \<Rightarrow> reader \<Rightarrow> Duration
    \<Rightarrow> string \<Rightarrow> string \<Rightarrow> string \<Rightarrow> string \<Rightarrow> fs \<times> Metadata \<times> error option" where
  "Put lb lim io s key r expiryTime deleteKey accessKey srcIp originalName =
     (case os_Create (create_file io) (files s) key of
        (_, Some err) \<Rightarrow> (s, Metadata_zero, Some err)
      | (dir, None) \<Rightarrow>
          (case io_Copy (write_limit io) (chunks r) (ending r) [] [] of
             (dst, hasher, err) \<Rightarrow>
               let bytes = int (length dst);
                   written = s\<lparr>files := dir(key \<mapsto> dst)\<rparr>;
                   removed = written\<lparr>files := fst (os_Remove None (files written) key)\<rparr>
               in
                 if bytes = 0 then (removed, Metadata_zero, Some FileEmptyError)
                 else if err \<noteq> None then (removed, Metadata_zero, err)
                 else if bytes \<ge> sint (MaxSize lim)
                   then (removed, Metadata_zero, Some FileTooLargeError)
                 else
                   (case read_header io of
                      Some msg \<Rightarrow> (removed, Metadata_zero, Some (OtherError msg))
                    | None \<Rightarrow>
                        let header = take 512 dst;
                            kind = mimetype_Detect lb header;
                            m = Metadata_zero
                              \<lparr>Mimetype := kind,
                               Size := bytes,
                               Sha256sum := hex_EncodeToString (sha256_Sum lb hasher),
                               Expiry := fileExpiry (NeverExpire lb) lim (now io) expiryTime bytes,
                               DeleteKey := deleteKey,
                               AccessKey := accessKey,
                               SrcIp := srcIp,
                               ArchiveFiles := fst (ListArchiveFiles lb kind bytes dst),
                               OriginalName := originalName\<rparr>
                        in
                          (case writeMetadata lb (create_meta_file io) (encode_meta_file io)
                                  written key m of
                             (s', Some err) \<Rightarrow>
                               (s'\<lparr>files := fst (os_Remove None (files s') key)\<rparr>, m, Some err)
                           | (s', None) \<Rightarrow> (s', m, None)))))"

subsection \<open>The expiry policy in the words of the specification\<close>

text \<open>
  The specification's \<^verbatim>\<open>computeExpiry(requestedDuration, size, maxDurationLimit,
  maxDurationSizeThreshold)\<close>, over unbounded integers, the durations in nanoseconds;
  the clock and the "never expire" sentinel are made arguments. This definition follows
  the specification, not the source; \<open>fileExpiry\<close> above is the source.
\<close>

definition computeExpiry :: "Time \<Rightarrow> Time \<Rightarrow> int \<Rightarrow> int \<Rightarrow> int \<Rightarrow> int \<Rightarrow> Time" where
  "computeExpiry time_Now never requestedDuration sz maxDurationLimit maxDurationSizeThreshold =
     (if requestedDuration = 0 then
        (if sz > maxDurationSizeThreshold \<and> maxDurationLimit > 0
         then time_Now + maxDurationLimit
         else never)
      else
        (if sz > maxDurationSizeThreshold \<and> requestedDuration > maxDurationLimit
         then time_Now + maxDurationLimit
         else time_Now + requestedDuration))"

subsection \<open>Example inputs\<close>

text \<open>
  Stand-ins for the libraries, used where a property is evaluated on a concrete call:
  a one-byte checksum for the hash, a MIME detector that knows the ZIP signature, an
  archive lister that fails on every ZIP file, an encoder that writes the same three
  bytes for every document and a decoder that is a table from file contents to
  documents.
\<close>

definition example_lib :: "(byte list \<times> MetadataJSON) list \<Rightarrow> lib" where
  "example_lib docs =
     \<lparr>sha256_Sum = (\<lambda>bs. [fold (+) bs 0]),
      mimetype_Detect = (\<lambda>header.
        if take 2 header = [0x50, 0x4b] then ''application/zip''
        else ''application/octet-stream''),
      ListArchiveFiles = (\<lambda>kind sz f.
        if kind = ''application/zip'' then ([], Some (OtherError ''zip: not a valid zip file''))
        else ([], None)),
      json_Encode = (\<lambda>mjson. [0x7b, 0x7d, 0x0a]),
      json_Decode = map_of docs,
      http_ServeFile = (\<lambda>r f. case f of None \<Rightarrow> [] | Some bs \<Rightarrow> bs),
      NeverExpire = 0\<rparr>"

text \<open>The limits of the specification's examples: one hour, 1000 bytes; and a
  maximal size of a million bytes.\<close>

definition example_limits :: Limits where
  "example_limits = \<lparr>MaxDurationTime = 3600, MaxDurationSize = 1000, MaxSize = 1000000\<rparr>"

text \<open>A call of \<open>Put\<close> at the instant \<open>t\<close> that meets no fault.\<close>

definition no_faults :: "Time \<Rightarrow> put_io" where
  "no_faults t =
     \<lparr>now = t, create_file = None, write_limit = None, read_header = None,
      create_meta_file = None, encode_meta_file = None\<rparr>"

definition empty_fs :: fs where
  "empty_fs = \<lparr>files = Map.empty, metas = Map.empty\<rparr>"

text \<open>A key that holds the data file \<open>[1]\<close> and a sidecar of the bytes \<open>[2]\<close>.\<close>

definition one_key_fs :: fs where
  "one_key_fs = \<lparr>files = [''k'' \<mapsto> [1]], metas = [''k'' \<mapsto> [2]]\<rparr>"

section \<open>Properties\<close>

subsection \<open>Auxiliary facts\<close>

lemmas model_defs =
  Put_def writeMetadata_def PutMetadata_def Head_def Get_def ServeFile_def Delete_def
  Exists_def os_Create_def os_Remove_def os_Open_def os_Stat_def os_IsNotExist_def
  file_Write_def mjson_of_def metadata_of_def Metadata_zero_def fileExpiry_def
  Time_Add_def Time_Unix_def time_Unix_def hextable_def Let_def

lemmas example_defs =
  example_lib_def example_limits_def no_faults_def empty_fs_def one_key_fs_def

lemma triple_None: "snd (snd p) = None \<Longrightarrow> p = (fst p, fst (snd p), None)"
  by (cases p) auto

text \<open>A copy that ends without an error has written the whole of the reader's bytes
  to the file and to the hasher, and the reader ended with \<^verbatim>\<open>io.EOF\<close>.\<close>

lemma io_Copy_ok:
  "io_Copy lim ps er dst h = (dst', h', None)
    \<Longrightarrow> dst' = dst @ concat ps \<and> h' = h @ concat ps \<and> er = None"
proof (induction ps arbitrary: dst h)
  case Nil
  then show ?case by simp
next
  case (Cons p ps)
  show ?case
  proof (cases "p = []")
    case True
    with Cons.prems have "io_Copy lim ps er dst h = (dst', h', None)" by simp
    from Cons.IH [OF this] True show ?thesis by simp
  next
    case False
    obtain d ew where w: "file_Write lim dst p = (d, ew)"
      by (cases "file_Write lim dst p")
    with Cons.prems False have ew: "ew = None" by (cases ew) auto
    with w have d: "d = dst @ p"
      by (auto simp: file_Write_def split: option.splits prod.splits if_splits)
    from Cons.prems False w ew have "io_Copy lim ps er d (h @ p) = (dst', h', None)"
      by simp
    from Cons.IH [OF this] d show ?thesis by simp
  qed
qed

text \<open>What a successful \<open>Put\<close> has met, returned and written.\<close>

lemma Put_okD:
  assumes "Put lb lim io s key r expiryTime deleteKey accessKey srcIp originalName
    = (s', m, None)"
  shows "create_file io = None"
    and "io_Copy (write_limit io) (chunks r) (ending r) [] []
      = (concat (chunks r), concat (chunks r), None)"
    and "concat (chunks r) \<noteq> []"
    and "int (length (concat (chunks r))) < sint (MaxSize lim)"
    and "read_header io = None"
    and "create_meta_file io = None"
    and "encode_meta_file io = None"
    and "m = Metadata_zero
          \<lparr>Mimetype := mimetype_Detect lb (take 512 (concat (chunks r))),
           Size := int (length (concat (chunks r))),
           Sha256sum := hex_EncodeToString (sha256_Sum lb (concat (chunks r))),
           Expiry := fileExpiry (NeverExpire lb) lim (now io) expiryTime
              (int (length (concat (chunks r)))),
           DeleteKey := deleteKey,
           AccessKey := accessKey,
           SrcIp := srcIp,
           ArchiveFiles := fst (ListArchiveFiles lb
              (mimetype_Detect lb (take 512 (concat (chunks r))))
              (int (length (concat (chunks r)))) (concat (chunks r))),
           OriginalName := originalName\<rparr>"
    and "s' = s\<lparr>files := (files s)(key \<mapsto> concat (chunks r)),
                 metas := (metas s)(key \<mapsto> json_Encode lb (mjson_of m))\<rparr>"
proof -
  obtain dst hasher err
    where c: "io_Copy (write_limit io) (chunks r) (ending r) [] [] = (dst, hasher, err)"
    by (cases "io_Copy (write_limit io) (chunks r) (ending r) [] []")
  from assms c have cf: "create_file io = None" and e: "err = None" and d0: "dst \<noteq> []"
    by (auto simp: Put_def Let_def os_Create_def split: option.splits if_splits prod.splits)
  from io_Copy_ok [OF c [unfolded e]]
  have d: "dst = concat (chunks r)" and h: "hasher = concat (chunks r)"
    by simp_all
  note facts = assms c e d h d0 cf
  show "create_file io = None" by (rule cf)
  show "io_Copy (write_limit io) (chunks r) (ending r) [] []
      = (concat (chunks r), concat (chunks r), None)"
    using c d h e by simp
  show "concat (chunks r) \<noteq> []" using d0 d by simp
  from facts show "int (length (concat (chunks r))) < sint (MaxSize lim)"
    by (auto simp: Put_def Let_def os_Create_def split: option.splits if_splits prod.splits)
  from facts show rh: "read_header io = None"
    by (auto simp: Put_def Let_def os_Create_def split: option.splits if_splits prod.splits)
  from facts rh show cm: "create_meta_file io = None"
    by (auto simp: Put_def Let_def os_Create_def writeMetadata_def
        split: option.splits if_splits prod.splits)
  from facts rh cm show em: "encode_meta_file io = None"
    by (auto simp: Put_def Let_def os_Create_def writeMetadata_def
        split: option.splits if_splits prod.splits)
  from facts rh cm em show "m = Metadata_zero
          \<lparr>Mimetype := mimetype_Detect lb (take 512 (concat (chunks r))),
           Size := int (length (concat (chunks r))),
           Sha256sum := hex_EncodeToString (sha256_Sum lb (concat (chunks r))),
           Expiry := fileExpiry (NeverExpire lb) lim (now io) expiryTime
              (int (length (concat (chunks r)))),
           DeleteKey := deleteKey,
           AccessKey := accessKey,
           SrcIp := srcIp,
           ArchiveFiles := fst (ListArchiveFiles lb
              (mimetype_Detect lb (take 512 (concat (chunks r))))
              (int (length (concat (chunks r)))) (concat (chunks r))),
           OriginalName := originalName\<rparr>"
    by (auto simp: Put_def Let_def os_Create_def writeMetadata_def
        split: option.splits if_splits prod.splits)
  from facts rh cm em
  show "s' = s\<lparr>files := (files s)(key \<mapsto> concat (chunks r)),
                 metas := (metas s)(key \<mapsto> json_Encode lb (mjson_of m))\<rparr>"
    by (auto simp: Put_def Let_def os_Create_def writeMetadata_def
        split: option.splits if_splits prod.splits)
qed

text \<open>Reading back a sidecar that was just written, when the JSON library reads the
  document it wrote.\<close>

lemma Head_after_write:
  assumes "metas s key = Some (json_Encode lb mjson)"
    and "json_Decode lb (json_Encode lb mjson) = Some mjson"
  shows "Head lb None s key = (metadata_of mjson, None)"
  using assms by (simp add: Head_def os_Open_def)

subsection \<open>The stored hash and size\<close>

text \<open>
  Claim C1. For every successful \<open>Put\<close> of a reader whose bytes are \<open>concat (chunks r)\<close>,
  the metadata that \<open>Put\<close> returns has as \<open>Sha256sum\<close> the hexadecimal encoding of the
  hash of exactly these bytes and as \<open>Size\<close> their number; the data file holds these
  bytes; and a following \<open>Head\<close> of the key succeeds and returns the same hash and size,
  provided the JSON library decodes the document it has encoded.
\<close>

theorem Put_hash_and_size:
  assumes "Put lb lim io s key r expiryTime deleteKey accessKey srcIp originalName
    = (s', m, None)"
    and "json_Decode lb (json_Encode lb (mjson_of m)) = Some (mjson_of m)"
  shows "Sha256sum m = hex_EncodeToString (sha256_Sum lb (concat (chunks r)))
    \<and> Size m = int (length (concat (chunks r)))
    \<and> files s' key = Some (concat (chunks r))
    \<and> snd (Head lb None s' key) = None
    \<and> Sha256sum (fst (Head lb None s' key))
        = hex_EncodeToString (sha256_Sum lb (concat (chunks r)))
    \<and> Size (fst (Head lb None s' key)) = int (length (concat (chunks r)))"
proof -
  note ok = Put_okD [OF assms(1)]
  have m1: "Sha256sum m = hex_EncodeToString (sha256_Sum lb (concat (chunks r)))"
    and m2: "Size m = int (length (concat (chunks r)))"
    by (simp_all add: ok(8))
  have "metas s' key = Some (json_Encode lb (mjson_of m))"
    by (simp add: ok(9))
  from Head_after_write [OF this assms(2)]
  have h: "Head lb None s' key = (metadata_of (mjson_of m), None)" .
  have "Sha256sum (metadata_of (mjson_of m)) = Sha256sum m"
    and "Size (metadata_of (mjson_of m)) = Size m"
    by (simp_all add: metadata_of_def mjson_of_def)
  with h m1 m2 have "snd (Head lb None s' key) = None"
    and "Sha256sum (fst (Head lb None s' key))
        = hex_EncodeToString (sha256_Sum lb (concat (chunks r)))"
    and "Size (fst (Head lb None s' key)) = int (length (concat (chunks r)))"
    by simp_all
  moreover have "files s' key = Some (concat (chunks r))"
    by (simp add: ok(9))
  ultimately show ?thesis using m1 m2 by simp
qed

theorem Put_hash_and_size_witness:
  "(let lb = example_lib [([0x7b, 0x7d, 0x0a],
        \<lparr>DeleteKeyJ = ''d'', AccessKeyJ = [], Sha256sumJ = ''06'',
         MimetypeJ = ''application/octet-stream'', SizeJ = 3, ExpiryJ = 0,
         SrcIpJ = ''10.0.0.1'', OriginalNameJ = ''a.bin'', ArchiveFilesJ = []\<rparr>)];
       p = Put lb example_limits (no_faults 1700000000000000000) empty_fs ''k''
         \<lparr>chunks = [[1, 2], [3]], ending = None\<rparr> 0 ''d'' [] ''10.0.0.1'' ''a.bin'';
       h = Head lb None (fst p) ''k''
    in snd (snd p) = None
      \<and> Sha256sum (fst (snd p)) = ''06'' \<and> Size (fst (snd p)) = 3
      \<and> files (fst p) ''k'' = Some [1, 2, 3]
      \<and> snd h = None \<and> Sha256sum (fst h) = ''06'' \<and> Size (fst h) = 3)"
proof -
  define lb where "lb = example_lib [([0x7b, 0x7d, 0x0a],
        \<lparr>DeleteKeyJ = ''d'', AccessKeyJ = [], Sha256sumJ = ''06'',
         MimetypeJ = ''application/octet-stream'', SizeJ = 3, ExpiryJ = 0,
         SrcIpJ = ''10.0.0.1'', OriginalNameJ = ''a.bin'', ArchiveFilesJ = []\<rparr>)]"
  define p where "p = Put lb example_limits (no_faults 1700000000000000000) empty_fs ''k''
         \<lparr>chunks = [[1, 2], [3]], ending = None\<rparr> 0 ''d'' [] ''10.0.0.1'' ''a.bin''"
  have e: "snd (snd p) = None"
    by (simp add: p_def lb_def model_defs example_defs)
  have c: "json_Decode lb (json_Encode lb (mjson_of (fst (snd p))))
      = Some (mjson_of (fst (snd p)))"
    by (simp add: p_def lb_def model_defs example_defs)
  from Put_hash_and_size [OF triple_None [OF e, unfolded p_def] c [unfolded p_def]] e
  show ?thesis
    by (simp add: p_def [symmetric] lb_def [symmetric] Let_def)
      (simp add: lb_def example_lib_def hextable_def)
qed

subsection \<open>The expiry policy\<close>

text \<open>A limit of at most 9223372036 seconds fits a \<^verbatim>\<open>time.Duration\<close>: the product
  with \<^verbatim>\<open>time.Second\<close> does not wrap around.\<close>

lemma sint_small:
  fixes w :: "64 word"
  assumes "uint w \<le> 9223372036"
  shows "sint w = uint w"
proof -
  have "sint w = signed_take_bit 63 (uint w)" by (simp add: sint_uint)
  also have "\<dots> = uint w"
    using assms by (intro signed_take_bit_int_eq_self) (simp_all add: order_trans [of _ 0])
  finally show ?thesis .
qed

lemma seconds_no_wrap:
  fixes w :: "64 word"
  assumes "uint w \<le> 9223372036"
  shows "sint (w * 1000000000) = uint w * 1000000000"
proof -
  have "sint (w * 1000000000) = signed_take_bit 63 (sint w * sint (1000000000 :: 64 word))"
    by (simp only: sint_word_mult) simp
  also have "\<dots> = signed_take_bit 63 (uint w * 1000000000)"
    by (simp add: sint_small [OF assms])
  also have "\<dots> = uint w * 1000000000"
    using assms by (intro signed_take_bit_int_eq_self) (simp_all add: order_trans [of _ 0])
  finally show ?thesis .
qed

lemma fileExpiry_computeExpiry:
  assumes "uint (MaxDurationTime lim) \<le> 9223372036"
  shows "fileExpiry never lim time_Now expiryTime bytes =
    computeExpiry time_Now never (sint expiryTime) bytes
      (uint (MaxDurationTime lim) * 1000000000) (sint (MaxDurationSize lim))"
  by (simp add: fileExpiry_def computeExpiry_def Let_def Time_Add_def
      seconds_no_wrap [OF assms] signed_eq_0_iff)

text \<open>
  The policy of claim C2, read with the configured limit, does not hold for every
  limit. \<^verbatim>\<open>Limits.MaxDurationTime\<close> is a \<^verbatim>\<open>uint64\<close> of seconds; 9223372037 seconds are
  more nanoseconds than an \<^verbatim>\<open>int64\<close> holds, and
  \<^verbatim>\<open>time.Duration(backends.Limits.MaxDurationTime) * time.Second\<close> wraps to a negative
  duration. A file of 2000 bytes put with no requested duration then never expires,
  where the policy gives it the limit.
\<close>

theorem Put_expiry_counterexample:
  "(let lb = example_lib [];
       p = Put lb \<lparr>MaxDurationTime = 9223372037, MaxDurationSize = 1000, MaxSize = 1000000\<rparr>
         (no_faults 1700000000000000000) empty_fs ''k''
         \<lparr>chunks = [replicate 2000 0], ending = None\<rparr> 0 ''d'' [] [] []
    in snd (snd p) = None
      \<and> Expiry (fst (snd p)) = NeverExpire lb
      \<and> Expiry (fst (snd p)) \<noteq>
          computeExpiry 1700000000000000000 (NeverExpire lb) 0 2000
            (9223372037 * 1000000000) 1000)"
  by (simp add: model_defs example_defs computeExpiry_def)

text \<open>
  Claim C2, amended. When the configured maximal duration is at most 9223372036
  seconds (so that it fits a \<^verbatim>\<open>time.Duration\<close>), the expiry of every successful \<open>Put\<close>
  is the one the policy \<open>computeExpiry\<close> gives for the requested duration, the number of
  bytes of the upload, the limit and the size threshold: for a requested duration of
  zero, now plus the limit when the size exceeds the threshold and the limit is
  positive, and the "never expire" sentinel otherwise; for any other requested
  duration, now plus the limit when the size exceeds the threshold and the request
  exceeds the limit, and now plus the requested duration otherwise.
\<close>

theorem Put_expiry_policy:
  assumes "Put lb lim io s key r expiryTime deleteKey accessKey srcIp originalName
    = (s', m, None)"
    and "uint (MaxDurationTime lim) \<le> 9223372036"
  shows "Expiry m =
    computeExpiry (now io) (NeverExpire lb) (sint expiryTime)
      (int (length (concat (chunks r))))
      (uint (MaxDurationTime lim) * 1000000000) (sint (MaxDurationSize lim))"
proof -
  have "Expiry m = fileExpiry (NeverExpire lb) lim (now io) expiryTime
      (int (length (concat (chunks r))))"
    by (simp add: Put_okD(8) [OF assms(1)])
  then show ?thesis
    by (simp only: fileExpiry_computeExpiry [OF assms(2)])
qed

text \<open>The four cases of the specification: a limit of 3600 seconds and a threshold of
  1000 bytes; uploads of 500 and of 2000 bytes; requested durations of zero, of 7200
  and of 1800 seconds.\<close>

theorem Put_expiry_policy_witness:
  "(let lb = example_lib [];
       t = 1700000000000000000;
       small = \<lparr>chunks = [replicate 500 0], ending = None\<rparr>;
       large = \<lparr>chunks = [replicate 2000 0], ending = None\<rparr>;
       expiry_of = (\<lambda>r d. Expiry (fst (snd
         (Put lb example_limits (no_faults t) empty_fs ''k'' r d ''d'' [] [] []))))
    in expiry_of small 0 = NeverExpire lb
      \<and> expiry_of large 0 = t + 3600 * 1000000000
      \<and> expiry_of large (7200 * 1000000000) = t + 3600 * 1000000000
      \<and> expiry_of large (1800 * 1000000000) = t + 1800 * 1000000000)"
proof -
  define lb where "lb = example_lib []"
  define P where "P = (\<lambda>r d.
    Put lb example_limits (no_faults 1700000000000000000) empty_fs ''k'' r d ''d'' [] [] [])"
  have b: "uint (MaxDurationTime example_limits) \<le> 9223372036"
    by (simp add: example_limits_def)
  have e: "snd (snd (P \<lparr>chunks = [replicate 500 0], ending = None\<rparr> 0)) = None"
    "snd (snd (P \<lparr>chunks = [replicate 2000 0], ending = None\<rparr> 0)) = None"
    "snd (snd (P \<lparr>chunks = [replicate 2000 0], ending = None\<rparr> (7200 * 1000000000))) = None"
    "snd (snd (P \<lparr>chunks = [replicate 2000 0], ending = None\<rparr> (1800 * 1000000000))) = None"
    by (simp_all add: P_def lb_def model_defs example_defs)
  note w = e [THEN triple_None, unfolded P_def, THEN Put_expiry_policy, OF b]
  show ?thesis
    using w by (simp add: Let_def lb_def example_defs computeExpiry_def)
qed

subsection \<open>Writing and reading back a sidecar\<close>

text \<open>
  Claim C3 as stated does not hold: \<open>Head\<close> does not return every \<open>Metadata\<close> that
  \<open>PutMetadata\<close> was given. The sidecar stores the expiry in whole seconds, so an
  expiry of half a second past a second comes back as that second. (The JSON library
  of the example decodes the document it encoded.)
\<close>

theorem PutMetadata_Head_counterexample:
  "(let m = \<lparr>DeleteKey = ''d'', AccessKey = [], Sha256sum = ''06'',
          Mimetype = ''application/octet-stream'', Size = 3,
          Expiry = 1700000000500000000, SrcIp = [], OriginalName = ''a.bin'',
          ArchiveFiles = []\<rparr>;
       lb = example_lib [([0x7b, 0x7d, 0x0a], mjson_of m)];
       w = PutMetadata lb None None empty_fs ''k'' m;
       h = Head lb None (fst w) ''k''
    in snd w = None
      \<and> json_Decode lb (json_Encode lb (mjson_of m)) = Some (mjson_of m)
      \<and> snd h = None
      \<and> Expiry (fst h) = 1700000000000000000
      \<and> fst h \<noteq> m)"
  by (simp add: model_defs example_defs)

text \<open>\<open>Head\<close> assigns eight of the nine fields of its result: the source address is
  stored by \<open>writeMetadata\<close> and is not read back.\<close>

lemma Head_SrcIp:
  "SrcIp (fst (Head lb open_meta s key)) = []"
  by (simp add: Head_def metadata_of_def Metadata_zero_def
      split: sum.splits option.splits)

text \<open>
  Claim C3, amended. For every key and every \<open>Metadata\<close> value \<open>m\<close>, a successful
  \<open>PutMetadata\<close> followed by \<open>Head\<close> returns a \<open>Metadata\<close> equal to \<open>m\<close> in the fields
  \<open>DeleteKey\<close>, \<open>AccessKey\<close>, \<open>Sha256sum\<close>, \<open>Mimetype\<close>, \<open>Size\<close>, \<open>OriginalName\<close> and
  \<open>ArchiveFiles\<close>, and whose \<open>Expiry\<close> is that of \<open>m\<close> cut down to whole seconds,
  provided the JSON library decodes the document it has encoded.
\<close>

theorem PutMetadata_Head_roundtrip:
  assumes "PutMetadata lb create_meta encode_meta s key m = (s', None)"
    and "json_Decode lb (json_Encode lb (mjson_of m)) = Some (mjson_of m)"
  shows "snd (Head lb None s' key) = None
    \<and> DeleteKey (fst (Head lb None s' key)) = DeleteKey m
    \<and> AccessKey (fst (Head lb None s' key)) = AccessKey m
    \<and> Sha256sum (fst (Head lb None s' key)) = Sha256sum m
    \<and> Mimetype (fst (Head lb None s' key)) = Mimetype m
    \<and> Size (fst (Head lb None s' key)) = Size m
    \<and> OriginalName (fst (Head lb None s' key)) = OriginalName m
    \<and> ArchiveFiles (fst (Head lb None s' key)) = ArchiveFiles m
    \<and> Expiry (fst (Head lb None s' key)) = Expiry m - Expiry m mod 1000000000"
proof -
  from assms(1) have "metas s' key = Some (json_Encode lb (mjson_of m))"
    by (auto simp: PutMetadata_def writeMetadata_def os_Create_def Let_def
        split: option.splits)
  from Head_after_write [OF this assms(2)]
  have h: "Head lb None s' key = (metadata_of (mjson_of m), None)" .
  have "Expiry (metadata_of (mjson_of m)) = Expiry m - Expiry m mod 1000000000"
    by (simp add: metadata_of_def mjson_of_def time_Unix_def Time_Unix_def
        minus_mod_eq_div_mult)
  then show ?thesis
    by (simp add: h) (simp add: metadata_of_def mjson_of_def)
qed

theorem PutMetadata_Head_roundtrip_witness:
  "(let m = \<lparr>DeleteKey = ''d'', AccessKey = ''secret'', Sha256sum = ''06'',
          Mimetype = ''application/octet-stream'', Size = 3,
          Expiry = 1700000000500000000, SrcIp = ''10.0.0.1'', OriginalName = ''a.bin'',
          ArchiveFiles = [''x'', ''y'']\<rparr>;
       lb = example_lib [([0x7b, 0x7d, 0x0a], mjson_of m)];
       w = PutMetadata lb None None empty_fs ''k'' m;
       h = Head lb None (fst w) ''k''
    in snd w = None
      \<and> snd h = None
      \<and> DeleteKey (fst h) = ''d'' \<and> AccessKey (fst h) = ''secret''
      \<and> Sha256sum (fst h) = ''06'' \<and> Mimetype (fst h) = ''application/octet-stream''
      \<and> Size (fst h) = 3 \<and> OriginalName (fst h) = ''a.bin''
      \<and> ArchiveFiles (fst h) = [''x'', ''y'']
      \<and> Expiry (fst h) = 1700000000000000000)"
proof -
  define m where "m = \<lparr>DeleteKey = ''d'', AccessKey = ''secret'', Sha256sum = ''06'',
          Mimetype = ''application/octet-stream'', Size = 3,
          Expiry = 1700000000500000000, SrcIp = ''10.0.0.1'', OriginalName = ''a.bin'',
          ArchiveFiles = [''x'', ''y'']\<rparr>"
  define lb where "lb = example_lib [([0x7b, 0x7d, 0x0a], mjson_of m)]"
  define w where "w = PutMetadata lb None None empty_fs ''k'' m"
  have e: "snd w = None"
    by (simp add: w_def lb_def m_def model_defs example_defs)
  then have e': "PutMetadata lb None None empty_fs ''k'' m = (fst w, None)"
    by (simp add: w_def [symmetric] prod_eq_iff)
  have c: "json_Decode lb (json_Encode lb (mjson_of m)) = Some (mjson_of m)"
    by (simp add: lb_def example_lib_def)
  from PutMetadata_Head_roundtrip [OF e' c] e
  show ?thesis
    by (simp add: Let_def m_def [symmetric] lb_def [symmetric] w_def [symmetric])
      (simp add: m_def)
qed

subsection \<open>What a failed \<open>Put\<close> leaves behind\<close>

lemma triple_Some: "snd (snd p) = Some e \<Longrightarrow> p = (fst p, fst (snd p), Some e)"
  by (cases p) auto

text \<open>
  Claim C4 as stated does not hold for a key that has a sidecar already: an empty
  upload to such a key fails with \<open>FileEmptyError\<close> and removes the data file, and the
  sidecar of the earlier upload remains.
\<close>

theorem Put_error_counterexample:
  "(let p = Put (example_lib []) example_limits (no_faults 1700000000000000000)
         one_key_fs ''k'' \<lparr>chunks = [], ending = None\<rparr> 0 ''d'' [] [] []
    in snd (snd p) = Some FileEmptyError
      \<and> files (fst p) ''k'' = None
      \<and> metas (fst p) ''k'' = Some [2])"
  by (simp add: model_defs example_defs)

text \<open>
  Claim C4, amended. Whenever \<open>Put\<close> returns an error, no data file and no sidecar of
  the key remain, provided the key had neither before the call. In detail, with
  \<open>(dst, hasher, err)\<close> the result of the copy: when creating the data file fails,
  nothing is changed; every error exit after the data file is created leaves the data
  directory as it was but for the data file of the key, which is removed; the metadata
  directory is left exactly as it was on every error exit but the failed metadata
  encode (the exit taken when every step before the encode has succeeded), which
  removes the sidecar of the key.
\<close>

theorem Put_error_cleanup:
  assumes "Put lb lim io s key r expiryTime deleteKey accessKey srcIp originalName
    = (s', m, Some e)"
    and "io_Copy (write_limit io) (chunks r) (ending r) [] [] = (dst, hasher, err)"
  shows "(files s key = None \<and> metas s key = None \<longrightarrow>
        files s' key = None \<and> metas s' key = None)
    \<and> (create_file io \<noteq> None \<longrightarrow> s' = s)
    \<and> (create_file io = None \<longrightarrow> files s' = (files s)(key := None))
    \<and> metas s' =
        (if create_file io = None \<and> dst \<noteq> [] \<and> err = None
            \<and> int (length dst) < sint (MaxSize lim)
            \<and> read_header io = None \<and> create_meta_file io = None
         then (metas s)(key := None)
         else metas s)
    \<and> (create_file io = None \<and> dst \<noteq> [] \<and> err = None
        \<and> int (length dst) < sint (MaxSize lim)
        \<and> read_header io = None \<and> create_meta_file io = None \<longrightarrow>
        (\<exists>msg. encode_meta_file io = Some msg \<and> e = OtherError msg))"
proof -
  note splits = option.splits if_splits prod.splits
  from assms have 2: "create_file io \<noteq> None \<longrightarrow> s' = s"
    by (auto simp: Put_def Let_def os_Create_def split: splits)
  from assms have 3: "create_file io = None \<longrightarrow> files s' = (files s)(key := None)"
    by (auto simp: Put_def Let_def os_Create_def os_Remove_def writeMetadata_def
        split: splits)
  from assms have 4: "metas s' =
        (if create_file io = None \<and> dst \<noteq> [] \<and> err = None
            \<and> int (length dst) < sint (MaxSize lim)
            \<and> read_header io = None \<and> create_meta_file io = None
         then (metas s)(key := None)
         else metas s)"
    by (auto simp: Put_def Let_def os_Create_def os_Remove_def writeMetadata_def
        split: splits)
  from assms have 5: "create_file io = None \<and> dst \<noteq> [] \<and> err = None
        \<and> int (length dst) < sint (MaxSize lim)
        \<and> read_header io = None \<and> create_meta_file io = None \<longrightarrow>
        (\<exists>msg. encode_meta_file io = Some msg \<and> e = OtherError msg)"
    by (auto simp: Put_def Let_def os_Create_def os_Remove_def writeMetadata_def
        split: splits)
  have 1: "files s key = None \<and> metas s key = None \<longrightarrow>
        files s' key = None \<and> metas s' key = None"
  proof (cases "create_file io = None")
    case True
    with 3 have "files s' key = None" by simp
    moreover have "metas s key = None \<longrightarrow> metas s' key = None"
      by (simp add: 4)
    ultimately show ?thesis by simp
  next
    case False
    with 2 show ?thesis by simp
  qed
  from 1 2 3 4 5 show ?thesis by blast
qed

text \<open>For a key that has both files: an upload whose header cannot be read back and
  an upload whose sidecar cannot be created leave the old sidecar and remove the data
  file; a failed metadata encode removes both; a data file that cannot be created
  changes nothing. For a fresh key: after an empty upload neither file is there.\<close>

theorem Put_error_cleanup_witness:
  "(let lb = example_lib [];
       io = no_faults 1700000000000000000;
       r = \<lparr>chunks = [[1, 2], [3]], ending = None\<rparr>;
       put = (\<lambda>io s r. Put lb example_limits io s ''k'' r 0 ''d'' [] [] []);
       p1 = put io empty_fs \<lparr>chunks = [], ending = None\<rparr>;
       p2 = put (io\<lparr>read_header := Some ''input/output error''\<rparr>) one_key_fs r;
       p3 = put (io\<lparr>create_meta_file := Some ''permission denied''\<rparr>) one_key_fs r;
       p4 = put (io\<lparr>encode_meta_file := Some ''no space left on device''\<rparr>) one_key_fs r;
       p5 = put (io\<lparr>create_file := Some ''permission denied''\<rparr>) one_key_fs r
    in snd (snd p1) = Some FileEmptyError
      \<and> files (fst p1) ''k'' = None \<and> metas (fst p1) ''k'' = None
      \<and> snd (snd p2) = Some (OtherError ''input/output error'')
      \<and> files (fst p2) ''k'' = None \<and> metas (fst p2) ''k'' = Some [2]
      \<and> snd (snd p3) = Some (OtherError ''permission denied'')
      \<and> files (fst p3) ''k'' = None \<and> metas (fst p3) ''k'' = Some [2]
      \<and> snd (snd p4) = Some (OtherError ''no space left on device'')
      \<and> files (fst p4) ''k'' = None \<and> metas (fst p4) ''k'' = None
      \<and> snd (snd p5) = Some (OtherError ''permission denied'')
      \<and> fst p5 = one_key_fs)"
proof -
  define lb where "lb = example_lib []"
  define io where "io = no_faults 1700000000000000000"
  define r where "r = \<lparr>chunks = [[1, 2], [3 :: byte]], ending = None\<rparr>"
  define p1 where "p1 = Put lb example_limits io empty_fs ''k''
    \<lparr>chunks = [], ending = None\<rparr> 0 ''d'' [] [] []"
  define p2 where "p2 = Put lb example_limits
    (io\<lparr>read_header := Some ''input/output error''\<rparr>) one_key_fs ''k'' r 0 ''d'' [] [] []"
  define p3 where "p3 = Put lb example_limits
    (io\<lparr>create_meta_file := Some ''permission denied''\<rparr>) one_key_fs ''k'' r 0 ''d'' [] [] []"
  define p4 where "p4 = Put lb example_limits
    (io\<lparr>encode_meta_file := Some ''no space left on device''\<rparr>) one_key_fs ''k'' r 0 ''d'' [] [] []"
  define p5 where "p5 = Put lb example_limits
    (io\<lparr>create_file := Some ''permission denied''\<rparr>) one_key_fs ''k'' r 0 ''d'' [] [] []"
  note defs = lb_def io_def r_def
  have e: "snd (snd p1) = Some FileEmptyError"
    "snd (snd p2) = Some (OtherError ''input/output error'')"
    "snd (snd p3) = Some (OtherError ''permission denied'')"
    "snd (snd p4) = Some (OtherError ''no space left on device'')"
    "snd (snd p5) = Some (OtherError ''permission denied'')"
    by (simp_all add: p1_def p2_def p3_def p4_def p5_def defs model_defs example_defs)
  have c0: "io_Copy (write_limit io') (chunks \<lparr>chunks = [], ending = None\<rparr>)
      (ending \<lparr>chunks = [], ending = None\<rparr>) [] [] = ([], [], None)" for io'
    by simp
  have c: "io_Copy (write_limit io') (chunks r) (ending r) [] [] = ([1, 2, 3], [1, 2, 3], None)"
    if "write_limit io' = None" for io'
    using that by (simp add: r_def file_Write_def)
  have wl: "write_limit (io\<lparr>read_header := Some ''input/output error''\<rparr>) = None"
    "write_limit (io\<lparr>create_meta_file := Some ''permission denied''\<rparr>) = None"
    "write_limit (io\<lparr>encode_meta_file := Some ''no space left on device''\<rparr>) = None"
    "write_limit (io\<lparr>create_file := Some ''permission denied''\<rparr>) = None"
    by (simp_all add: io_def no_faults_def)
  from Put_error_cleanup [OF triple_Some [OF e(1), unfolded p1_def] c0,
      folded p1_def]
  have 1: "files (fst p1) ''k'' = None \<and> metas (fst p1) ''k'' = None"
    by (simp add: io_def example_defs)
  from Put_error_cleanup [OF triple_Some [OF e(2), unfolded p2_def] c [OF wl(1)],
      folded p2_def]
  have 2: "files (fst p2) ''k'' = None \<and> metas (fst p2) ''k'' = Some [2]"
    by (simp add: io_def example_defs)
  from Put_error_cleanup [OF triple_Some [OF e(3), unfolded p3_def] c [OF wl(2)],
      folded p3_def]
  have 3: "files (fst p3) ''k'' = None \<and> metas (fst p3) ''k'' = Some [2]"
    by (simp add: io_def example_defs)
  from Put_error_cleanup [OF triple_Some [OF e(4), unfolded p4_def] c [OF wl(3)],
      folded p4_def]
  have 4: "files (fst p4) ''k'' = None \<and> metas (fst p4) ''k'' = None"
    by (simp add: io_def example_defs)
  from Put_error_cleanup [OF triple_Some [OF e(5), unfolded p5_def] c [OF wl(4)],
      folded p5_def]
  have 5: "fst p5 = one_key_fs"
    by (simp add: io_def example_defs)
  from e 1 2 3 4 5 show ?thesis
    by (simp add: Let_def lb_def [symmetric] io_def [symmetric] r_def [symmetric]
        p1_def [symmetric] p2_def [symmetric] p3_def [symmetric]
        p4_def [symmetric] p5_def [symmetric])
qed

subsection \<open>The order of the rejections\<close>

text \<open>
  Claim C5. After the data file is created and the upload copied, \<open>Put\<close> rejects in this
  order: when no byte was copied it fails with \<open>FileEmptyError\<close> (whatever the error of
  the copy); otherwise, when the copy returned an error, with that error; otherwise,
  when the number of bytes copied is at least \<open>MaxSize\<close>, with \<open>FileTooLargeError\<close>. In
  each of the three cases the data file of the key is removed, the metadata directory
  is left as it was, and the metadata returned is the zero value.
\<close>

theorem Put_rejects_in_order:
  assumes "create_file io = None"
    and "io_Copy (write_limit io) (chunks r) (ending r) [] [] = (dst, hasher, err)"
    and "dst = [] \<or> err \<noteq> None \<or> sint (MaxSize lim) \<le> int (length dst)"
  shows "Put lb lim io s key r expiryTime deleteKey accessKey srcIp originalName =
    (s\<lparr>files := (files s)(key := None)\<rparr>, Metadata_zero,
     if dst = [] then Some FileEmptyError
     else if err \<noteq> None then err
     else Some FileTooLargeError)"
  using assms
  by (auto simp: Put_def Let_def os_Create_def os_Remove_def split: option.splits)

text \<open>An empty upload; a reader that fails before its first byte; a reader that fails
  after two bytes; a disk that is full after two bytes; three bytes with a maximal size
  of three.\<close>

theorem Put_rejects_in_order_witness:
  "(let lb = example_lib [];
       io = no_faults 1700000000000000000;
       reset = Some (OtherError ''connection reset by peer'');
       full = OtherError ''no space left on device'';
       put = (\<lambda>lim io r. Put lb lim io one_key_fs ''k'' r 0 ''d'' [] [] []);
       gone = one_key_fs\<lparr>files := (files one_key_fs)(''k'' := None)\<rparr>
    in put example_limits io \<lparr>chunks = [], ending = None\<rparr>
         = (gone, Metadata_zero, Some FileEmptyError)
      \<and> put example_limits io \<lparr>chunks = [], ending = reset\<rparr>
         = (gone, Metadata_zero, Some FileEmptyError)
      \<and> put example_limits io \<lparr>chunks = [[1, 2]], ending = reset\<rparr>
         = (gone, Metadata_zero, reset)
      \<and> put example_limits (io\<lparr>write_limit := Some (2, full)\<rparr>)
           \<lparr>chunks = [[1, 2], [3]], ending = None\<rparr>
         = (gone, Metadata_zero, Some full)
      \<and> put (example_limits\<lparr>MaxSize := 3\<rparr>) io \<lparr>chunks = [[1, 2], [3]], ending = None\<rparr>
         = (gone, Metadata_zero, Some FileTooLargeError)
      \<and> metas gone ''k'' = Some [2])"
proof -
  define io where "io = no_faults 1700000000000000000"
  define reset where "reset = Some (OtherError ''connection reset by peer'')"
  define full where "full = OtherError ''no space left on device''"
  have cf: "create_file io = None" "create_file (io\<lparr>write_limit := Some (2, full)\<rparr>) = None"
    by (simp_all add: io_def no_faults_def)
  have c1: "io_Copy (write_limit io) (chunks \<lparr>chunks = [], ending = None\<rparr>)
      (ending \<lparr>chunks = [], ending = None\<rparr>) [] [] = ([], [], None)"
    by simp
  have c2: "io_Copy (write_limit io) (chunks \<lparr>chunks = [], ending = reset\<rparr>)
      (ending \<lparr>chunks = [], ending = reset\<rparr>) [] [] = ([], [], reset)"
    by simp
  have c3: "io_Copy (write_limit io) (chunks \<lparr>chunks = [[1, 2]], ending = reset\<rparr>)
      (ending \<lparr>chunks = [[1, 2 :: byte]], ending = reset\<rparr>) [] [] = ([1, 2], [1, 2], reset)"
    by (simp add: io_def no_faults_def file_Write_def)
  have c4: "io_Copy (write_limit (io\<lparr>write_limit := Some (2, full)\<rparr>))
      (chunks \<lparr>chunks = [[1, 2], [3]], ending = None\<rparr>)
      (ending \<lparr>chunks = [[1, 2], [3 :: byte]], ending = None\<rparr>) [] []
      = ([1, 2], [1, 2, 3], Some full)"
    by (simp add: file_Write_def)
  have c5: "io_Copy (write_limit io) (chunks \<lparr>chunks = [[1, 2], [3]], ending = None\<rparr>)
      (ending \<lparr>chunks = [[1, 2], [3 :: byte]], ending = None\<rparr>) [] []
      = ([1, 2, 3], [1, 2, 3], None)"
    by (simp add: io_def no_faults_def file_Write_def)
  note w =
    Put_rejects_in_order [OF cf(1) c1, of example_limits]
    Put_rejects_in_order [OF cf(1) c2, of example_limits]
    Put_rejects_in_order [OF cf(1) c3, of example_limits]
    Put_rejects_in_order [OF cf(2) c4, of example_limits]
    Put_rejects_in_order [OF cf(1) c5, of "example_limits\<lparr>MaxSize := 3\<rparr>"]
  show ?thesis
    using w
    by (simp add: Let_def io_def [symmetric] reset_def [symmetric] full_def [symmetric])
      (simp add: reset_def example_limits_def one_key_fs_def)
qed

subsection \<open>The failures of \<open>Head\<close> and \<open>Get\<close>\<close>

text \<open>
  Claim C6 as stated does not hold: \<open>Head\<close> does not fail with \<open>NotFoundErr\<close> for every
  key that has no sidecar. \<open>Head\<close> asks \<^verbatim>\<open>os.IsNotExist\<close> of the error of the open, and an
  open that fails otherwise (here: the metadata directory may not be searched) gives
  \<open>BadMetadata\<close>, also when the sidecar is absent; \<open>Get\<close> returns the same error.
\<close>

theorem Head_NotFound_counterexample:
  "metas empty_fs ''k'' = None
    \<and> Head (example_lib []) (Some ''permission denied'') empty_fs ''k''
        = (Metadata_zero, Some BadMetadata)
    \<and> Get (example_lib []) (Some ''permission denied'') None empty_fs ''k''
        = (Metadata_zero, None, Some BadMetadata)"
  by (simp add: model_defs example_defs)

text \<open>
  Claim C6, amended. \<open>Head\<close> fails with \<open>NotFoundErr\<close> exactly when the open of the
  sidecar reports that it does not exist, that is, when the sidecar is absent and the
  open does not fail otherwise; and with \<open>BadMetadata\<close> exactly when the open fails with
  any other error (the sidecar present or not) or the sidecar is opened and does not
  parse. \<open>Get\<close> of a key with no sidecar fails with that error of \<open>Head\<close> and returns no
  stream; no failed \<open>Get\<close> returns a stream; and when \<open>Head\<close> succeeds and the data
  file cannot be opened, \<open>Get\<close> returns the error of the open, which is neither
  \<open>NotFoundErr\<close> nor \<open>BadMetadata\<close>, together with the metadata.
\<close>

theorem Head_Get_failures:
  "(snd (Head lb open_meta s key) = Some NotFoundErr \<longleftrightarrow>
        open_meta = None \<and> metas s key = None)
    \<and> (snd (Head lb open_meta s key) = Some BadMetadata \<longleftrightarrow>
        open_meta \<noteq> None \<or> (\<exists>f. metas s key = Some f \<and> json_Decode lb f = None))
    \<and> (metas s key = None \<longrightarrow>
        Get lb open_meta open_file s key =
          (Metadata_zero, None,
           Some (if open_meta = None then NotFoundErr else BadMetadata)))
    \<and> (snd (snd (Get lb open_meta open_file s key)) \<noteq> None \<longrightarrow>
        fst (snd (Get lb open_meta open_file s key)) = None)
    \<and> (snd (Head lb open_meta s key) = None \<and> os_Open open_file (files s) key = Inl e \<longrightarrow>
        Get lb open_meta open_file s key = (fst (Head lb open_meta s key), None, Some e)
        \<and> e \<noteq> NotFoundErr \<and> e \<noteq> BadMetadata)"
proof -
  note splits = option.splits sum.splits prod.splits if_splits
  have 1: "snd (Head lb open_meta s key) = Some NotFoundErr \<longleftrightarrow>
        open_meta = None \<and> metas s key = None"
    by (auto simp: Head_def os_Open_def os_IsNotExist_def split: splits)
  have 2: "snd (Head lb open_meta s key) = Some BadMetadata \<longleftrightarrow>
        open_meta \<noteq> None \<or> (\<exists>f. metas s key = Some f \<and> json_Decode lb f = None)"
    by (auto simp: Head_def os_Open_def os_IsNotExist_def split: splits)
  have 3: "metas s key = None \<longrightarrow>
        Get lb open_meta open_file s key =
          (Metadata_zero, None,
           Some (if open_meta = None then NotFoundErr else BadMetadata))"
    by (auto simp: Get_def Head_def os_Open_def os_IsNotExist_def split: splits)
  have 4: "snd (snd (Get lb open_meta open_file s key)) \<noteq> None \<longrightarrow>
        fst (snd (Get lb open_meta open_file s key)) = None"
    by (auto simp: Get_def split: splits)
  have 5: "snd (Head lb open_meta s key) = None \<and> os_Open open_file (files s) key = Inl e \<longrightarrow>
        Get lb open_meta open_file s key = (fst (Head lb open_meta s key), None, Some e)
        \<and> e \<noteq> NotFoundErr \<and> e \<noteq> BadMetadata"
    by (cases "Head lb open_meta s key")
      (auto simp: Get_def os_Open_def split: splits)
  from 1 2 3 4 5 show ?thesis by blast
qed

text \<open>A key with no files, with and without a failing open; a sidecar that cannot be
  opened; a sidecar that does not parse; a data file that cannot be opened; a data
  file that is missing.\<close>

theorem Head_Get_failures_witness:
  "(let mjson = mjson_of Metadata_zero;
       lb = example_lib [([2], mjson)];
       denied = Some ''permission denied''
    in Head lb None empty_fs ''k'' = (Metadata_zero, Some NotFoundErr)
      \<and> Head lb denied empty_fs ''k'' = (Metadata_zero, Some BadMetadata)
      \<and> Head lb denied one_key_fs ''k'' = (Metadata_zero, Some BadMetadata)
      \<and> Head (example_lib []) None one_key_fs ''k'' = (Metadata_zero, Some BadMetadata)
      \<and> Get lb None None empty_fs ''k'' = (Metadata_zero, None, Some NotFoundErr)
      \<and> Get lb denied None empty_fs ''k'' = (Metadata_zero, None, Some BadMetadata)
      \<and> Get lb None denied one_key_fs ''k''
          = (metadata_of mjson, None, Some (OtherError ''permission denied''))
      \<and> Get lb None None (one_key_fs\<lparr>files := Map.empty\<rparr>) ''k''
          = (metadata_of mjson, None, Some ErrNotExist))"
proof -
  define mjson where "mjson = mjson_of Metadata_zero"
  define lb where "lb = example_lib [([2], mjson)]"
  define denied where "denied = Some ''permission denied''"
  note w = Head_Get_failures [of lb _ _ "''k''"]
  have z: "fst (Head l f s k) = Metadata_zero" if "snd (Head l f s k) \<noteq> None" for l f s k
    using that by (auto simp: Head_def split: option.splits sum.splits if_splits)
  have h: "Head lb None s ''k'' = (metadata_of mjson, None)" if "metas s ''k'' = Some [2]" for s
    using that by (simp add: Head_def os_Open_def lb_def example_lib_def)
  have 1: "Head lb None empty_fs ''k'' = (Metadata_zero, Some NotFoundErr)"
    using w [of None empty_fs] z [of lb None empty_fs "''k''"]
    by (simp add: empty_fs_def prod_eq_iff)
  have 2: "Head lb denied empty_fs ''k'' = (Metadata_zero, Some BadMetadata)"
    using w [of denied empty_fs] z [of lb denied empty_fs "''k''"]
    by (simp add: denied_def prod_eq_iff)
  have 3: "Head lb denied one_key_fs ''k'' = (Metadata_zero, Some BadMetadata)"
    using w [of denied one_key_fs] z [of lb denied one_key_fs "''k''"]
    by (simp add: denied_def prod_eq_iff)
  have 4: "Head (example_lib []) None one_key_fs ''k'' = (Metadata_zero, Some BadMetadata)"
    using Head_Get_failures [of "example_lib []" None one_key_fs "''k''"]
      z [of "example_lib []" None one_key_fs "''k''"]
    by (simp add: one_key_fs_def example_lib_def prod_eq_iff)
  have 5: "Get lb None None empty_fs ''k'' = (Metadata_zero, None, Some NotFoundErr)"
    using w [of None empty_fs None] by (simp add: empty_fs_def)
  have 6: "Get lb denied None empty_fs ''k'' = (Metadata_zero, None, Some BadMetadata)"
    using w [of denied empty_fs None] by (simp add: empty_fs_def denied_def)
  have 7: "Get lb None denied one_key_fs ''k''
      = (metadata_of mjson, None, Some (OtherError ''permission denied''))"
    using w [of None one_key_fs denied "OtherError ''permission denied''"]
      h [of one_key_fs]
    by (simp add: one_key_fs_def denied_def os_Open_def)
  have 8: "Get lb None None (one_key_fs\<lparr>files := Map.empty\<rparr>) ''k''
      = (metadata_of mjson, None, Some ErrNotExist)"
    using w [of None "one_key_fs\<lparr>files := Map.empty\<rparr>" None ErrNotExist]
      h [of "one_key_fs\<lparr>files := Map.empty\<rparr>"]
    by (simp add: one_key_fs_def os_Open_def)
  from 1 2 3 4 5 6 7 8 show ?thesis
    by (simp add: Let_def mjson_def [symmetric] lb_def [symmetric] denied_def [symmetric])
qed

subsection \<open>\<open>Delete\<close> and \<open>Exists\<close>\<close>



subsection \<open>The archive listing\<close>

text \<open>
  Claim C8 as stated does not hold for every archive lister: \<open>Put\<close> stores the names
  that \<^verbatim>\<open>helpers.ListArchiveFiles\<close> returns, whatever the error it returns with them. With a
  lister that returns the one name it has read and an error, \<open>Put\<close> succeeds and the
  list of archive files is not empty.
\<close>

theorem Put_archive_error_counterexample:
  "(let lb = (example_lib [])
         \<lparr>ListArchiveFiles := (\<lambda>kind sz f. ([''a.txt''], Some (OtherError ''unexpected EOF'')))\<rparr>;
       p = Put lb example_limits (no_faults 1700000000000000000) empty_fs ''k''
         \<lparr>chunks = [[1, 2], [3]], ending = None\<rparr> 0 ''d'' [] [] []
    in snd (ListArchiveFiles lb (Mimetype (fst (snd p))) (Size (fst (snd p))) [1, 2, 3])
        = Some (OtherError ''unexpected EOF'')
      \<and> snd (snd p) = None
      \<and> ArchiveFiles (fst (snd p)) = [''a.txt''])"
  by (simp add: model_defs example_defs)

text \<open>
  Claim C8, amended. A failure of the archive lister never makes \<open>Put\<close> fail: when every
  other step of \<open>Put\<close> succeeds and \<^verbatim>\<open>helpers.ListArchiveFiles\<close> returns an error, \<open>Put\<close>
  still succeeds and the error is not returned. Both files of the key are written, and
  the metadata returned and stored is that of the upload, with as list of archive
  files the names the lister returned with its error (the empty list when it returned
  none).
\<close>

theorem Put_ignores_archive_error:
  assumes "create_file io = None"
    and "io_Copy (write_limit io) (chunks r) (ending r) [] [] = (dst, hasher, None)"
    and "dst \<noteq> []"
    and "int (length dst) < sint (MaxSize lim)"
    and "read_header io = None"
    and "create_meta_file io = None"
    and "encode_meta_file io = None"
    and "ListArchiveFiles lb (mimetype_Detect lb (take 512 dst)) (int (length dst)) dst
      = (names, Some e)"
  shows "Put lb lim io s key r expiryTime deleteKey accessKey srcIp originalName =
    (let m = Metadata_zero
          \<lparr>Mimetype := mimetype_Detect lb (take 512 dst),
           Size := int (length dst),
           Sha256sum := hex_EncodeToString (sha256_Sum lb hasher),
           Expiry := fileExpiry (NeverExpire lb) lim (now io) expiryTime (int (length dst)),
           DeleteKey := deleteKey,
           AccessKey := accessKey,
           SrcIp := srcIp,
           ArchiveFiles := names,
           OriginalName := originalName\<rparr>
     in (s\<lparr>files := (files s)(key \<mapsto> dst),
           metas := (metas s)(key \<mapsto> json_Encode lb (mjson_of m))\<rparr>, m, None))"
  using assms
  by (simp add: Put_def Let_def os_Create_def writeMetadata_def)

text \<open>An upload that starts with the ZIP signature and is no ZIP file: the archive
  lister of the example fails on it and returns no names.\<close>

theorem Put_ignores_archive_error_witness:
  "(let lb = example_lib [];
       r = \<lparr>chunks = [[0x50, 0x4b, 3, 4]], ending = None\<rparr>;
       p = Put lb example_limits (no_faults 1700000000000000000) empty_fs ''k'' r 0
         ''d'' [] [] ''a.zip''
    in ListArchiveFiles lb (mimetype_Detect lb [0x50, 0x4b, 3, 4]) 4 [0x50, 0x4b, 3, 4]
        = ([], Some (OtherError ''zip: not a valid zip file''))
      \<and> snd (snd p) = None
      \<and> Mimetype (fst (snd p)) = ''application/zip''
      \<and> Size (fst (snd p)) = 4
      \<and> DeleteKey (fst (snd p)) = ''d''
      \<and> OriginalName (fst (snd p)) = ''a.zip''
      \<and> ArchiveFiles (fst (snd p)) = []
      \<and> files (fst p) ''k'' = Some [0x50, 0x4b, 3, 4]
      \<and> metas (fst p) ''k'' = Some (json_Encode lb (mjson_of (fst (snd p)))))"
proof -
  define lb where "lb = example_lib []"
  define io where "io = no_faults 1700000000000000000"
  define r :: reader where "r = \<lparr>chunks = [[0x50, 0x4b, 3, 4]], ending = None\<rparr>"
  define p where "p = Put lb example_limits io empty_fs ''k'' r 0 ''d'' [] [] ''a.zip''"
  have io: "create_file io = None" "read_header io = None" "create_meta_file io = None"
    "encode_meta_file io = None"
    by (simp_all add: io_def no_faults_def)
  have c: "io_Copy (write_limit io) (chunks r) (ending r) [] []
      = ([0x50, 0x4b, 3, 4], [0x50, 0x4b, 3, 4], None)"
    by (simp add: io_def no_faults_def r_def file_Write_def)
  have n: "[0x50, 0x4b, 3, 4 :: byte] \<noteq> []"
    and sz: "int (length [0x50, 0x4b, 3, 4 :: byte]) < sint (MaxSize example_limits)"
    by (simp_all add: example_limits_def)
  have l: "ListArchiveFiles lb (mimetype_Detect lb (take 512 [0x50, 0x4b, 3, 4]))
      (int (length [0x50, 0x4b, 3, 4 :: byte])) [0x50, 0x4b, 3, 4]
      = ([], Some (OtherError ''zip: not a valid zip file''))"
    by (simp add: lb_def example_lib_def)
  have d: "mimetype_Detect lb [0x50, 0x4b, 3, 4] = ''application/zip''"
    by (simp add: lb_def example_lib_def)
  from Put_ignores_archive_error [OF io(1) c n sz io(2) io(3) io(4) l,
      where s = empty_fs and key = "''k''" and expiryTime = 0 and deleteKey = "''d''"
        and accessKey = "[]" and srcIp = "[]" and originalName = "''a.zip''",
      folded p_def]
  have "snd (snd p) = None
      \<and> Mimetype (fst (snd p)) = ''application/zip''
      \<and> Size (fst (snd p)) = 4
      \<and> DeleteKey (fst (snd p)) = ''d''
      \<and> OriginalName (fst (snd p)) = ''a.zip''
      \<and> ArchiveFiles (fst (snd p)) = []
      \<and> files (fst p) ''k'' = Some [0x50, 0x4b, 3, 4]
      \<and> metas (fst p) ''k'' = Some (json_Encode lb (mjson_of (fst (snd p))))"
    by (simp add: Let_def d)
  with l show ?thesis
    by (simp add: Let_def lb_def [symmetric] io_def [symmetric] r_def [symmetric]
        p_def [symmetric])
qed

subsection \<open>\<open>Exists\<close>\<close>

text \<open>
  Claim C9. \<open>Exists\<close> returns true if and only if the stat of the data file of the key
  succeeds, and it returns the error of the stat with the boolean: for a data file
  that is there and cannot be examined, false and that error; for a data file that is
  absent, false (and the error that says so); for a data file that can be examined,
  true and no error.
\<close>

theorem Exists_reports_stat:
  "(fst (Exists stat_file s key) \<longleftrightarrow> snd (os_Stat stat_file (files s) key) = None)
    \<and> snd (Exists stat_file s key) = snd (os_Stat stat_file (files s) key)
    \<and> (files s key = None \<longrightarrow> Exists stat_file s key = (False, Some ErrNotExist))
    \<and> (files s key \<noteq> None \<and> stat_file = Some msg \<longrightarrow>
        Exists stat_file s key = (False, Some (OtherError msg)))
    \<and> (files s key \<noteq> None \<and> stat_file = None \<longrightarrow> Exists stat_file s key = (True, None))"
  by (auto simp: Exists_def os_Stat_def split: option.splits prod.splits)

theorem Exists_reports_stat_witness:
  "Exists None empty_fs ''k'' = (False, Some ErrNotExist)
    \<and> Exists (Some ''permission denied'') one_key_fs ''k''
        = (False, Some (OtherError ''permission denied''))
    \<and> Exists None one_key_fs ''k'' = (True, None)"
  using Exists_reports_stat [of None empty_fs "''k''"]
    Exists_reports_stat [of "Some ''permission denied''" one_key_fs "''k''" "''permission denied''"]
    Exists_reports_stat [of None one_key_fs "''k''"]
  by (simp add: empty_fs_def one_key_fs_def)

subsection \<open>Reading does not look at the access key\<close>

text \<open>
  Claim C10. Neither \<open>Get\<close> nor \<open>ServeFile\<close> depends on the stored access key. Take a key
  whose sidecar parses, and replace the sidecar by one that parses to the same
  document but for the access key. Then \<open>Get\<close> returns the same stream and the same
  error, and the same metadata but for the access key; and \<open>ServeFile\<close> writes the same
  response and returns the same error. When moreover the data file is there and
  neither open fails, both succeed: \<open>Get\<close> returns the bytes of the data file, and
  \<open>ServeFile\<close> hands the data file to \<^verbatim>\<open>http.ServeFile\<close>.
\<close>

theorem Get_ServeFile_ignore_AccessKey:
  assumes "metas s key = Some f"
    and "json_Decode lb f = Some mjson"
    and "json_Decode lb f' = Some (mjson\<lparr>AccessKeyJ := accessKey\<rparr>)"
  shows "snd (Get lb open_meta open_file (s\<lparr>metas := (metas s)(key \<mapsto> f')\<rparr>) key)
      = snd (Get lb open_meta open_file s key)
    \<and> (fst (Get lb open_meta open_file (s\<lparr>metas := (metas s)(key \<mapsto> f')\<rparr>) key))
        \<lparr>AccessKey := []\<rparr>
      = (fst (Get lb open_meta open_file s key))\<lparr>AccessKey := []\<rparr>
    \<and> ServeFile lb open_meta (s\<lparr>metas := (metas s)(key \<mapsto> f')\<rparr>) key req
      = ServeFile lb open_meta s key req
    \<and> (files s key = Some content \<and> open_meta = None \<and> open_file = None \<longrightarrow>
        snd (Get lb open_meta open_file s key) = (Some content, None)
        \<and> ServeFile lb open_meta s key req
          = (Some (http_ServeFile lb req (Some content)), None))"
  using assms
  by (auto simp: Get_def ServeFile_def Head_def os_Open_def os_IsNotExist_def
      metadata_of_def split: option.splits)

text \<open>A public object and the same object with an access key set.\<close>

theorem Get_ServeFile_ignore_AccessKey_witness:
  "(let mjson = mjson_of (Metadata_zero\<lparr>DeleteKey := ''d''\<rparr>);
       lb = example_lib [([2], mjson), ([5], mjson\<lparr>AccessKeyJ := ''secret''\<rparr>)];
       locked = one_key_fs\<lparr>metas := (metas one_key_fs)(''k'' \<mapsto> [5])\<rparr>
    in AccessKey (fst (Get lb None None one_key_fs ''k'')) = []
      \<and> AccessKey (fst (Get lb None None locked ''k'')) = ''secret''
      \<and> snd (Get lb None None one_key_fs ''k'') = (Some [1], None)
      \<and> snd (Get lb None None locked ''k'') = (Some [1], None)
      \<and> ServeFile lb None one_key_fs ''k'' ''GET /k'' = (Some [1], None)
      \<and> ServeFile lb None locked ''k'' ''GET /k'' = (Some [1], None))"
proof -
  define mjson where "mjson = mjson_of (Metadata_zero\<lparr>DeleteKey := ''d''\<rparr>)"
  define lb where "lb = example_lib [([2], mjson), ([5], mjson\<lparr>AccessKeyJ := ''secret''\<rparr>)]"
  define locked where "locked = one_key_fs\<lparr>metas := (metas one_key_fs)(''k'' \<mapsto> [5])\<rparr>"
  have a: "metas one_key_fs ''k'' = Some [2]"
    and b: "json_Decode lb [2] = Some mjson"
    and c: "json_Decode lb [5] = Some (mjson\<lparr>AccessKeyJ := ''secret''\<rparr>)"
    by (simp_all add: one_key_fs_def lb_def example_lib_def)
  have k: "AccessKey (fst (Get lb None None one_key_fs ''k'')) = []"
    "AccessKey (fst (Get lb None None locked ''k'')) = ''secret''"
    by (simp_all add: locked_def lb_def mjson_def model_defs example_defs)
  have s: "http_ServeFile lb ''GET /k'' (Some [1]) = [1]"
    by (simp add: lb_def example_lib_def)
  from Get_ServeFile_ignore_AccessKey [OF a b c, of None None "''GET /k''" "[1]",
      folded locked_def] k s
  show ?thesis
    by (simp add: Let_def mjson_def [symmetric] lb_def [symmetric] locked_def [symmetric])
      (simp add: one_key_fs_def)
qed

end
